theory Spec2Isabelle
  imports Main "HOL-Library.Sublist" "HOL-Library.AList"
begin

section \<open>Strings as Python handles them\<close>

text \<open>
  Text is a list of characters.  The line feed and the tabulator are written
  \<open>NL\<close> and \<open>TAB\<close>.  The text of a file is the text that Python reads from it,
  with every line end already translated to a line feed.
\<close>

abbreviation NL :: char where "NL \<equiv> CHR 0x0A"
abbreviation TAB :: char where "TAB \<equiv> CHR 0x09"

text \<open>
  \<open>str.strip()\<close> without argument removes the characters for which
  \<open>str.isspace\<close> holds; below code point 256 these are 9..13, 28..32, 133 and 160.
\<close>

definition is_space :: "char \<Rightarrow> bool" where
  "is_space c = (of_char c \<in> {9, 10, 11, 12, 13, 28, 29, 30, 31, 32, 133, 160 :: nat})"

definition strip_where :: "(char \<Rightarrow> bool) \<Rightarrow> string \<Rightarrow> string" where
  "strip_where P s = rev (dropWhile P (rev (dropWhile P s)))"

definition strip :: "string \<Rightarrow> string" where
  \<comment> \<open>\<open>line.strip()\<close>\<close>
  "strip s = strip_where is_space s"

definition is_bracket :: "char \<Rightarrow> bool" where
  "is_bracket c = (c = CHR ''['' \<or> c = CHR '']'')"

definition strip_brackets :: "string \<Rightarrow> string" where
  \<comment> \<open>\<open>line.strip('[]')\<close>: every leading and trailing character of the set is removed\<close>
  "strip_brackets s = strip_where is_bracket s"

fun startswith_bracket :: "string \<Rightarrow> bool" where
  \<comment> \<open>\<open>line.startswith('[')\<close>\<close>
  "startswith_bracket [] = False"
| "startswith_bracket (c # cs) = (c = CHR ''['')"

fun endswith :: "string \<Rightarrow> string \<Rightarrow> bool" where
  \<comment> \<open>\<open>name.endswith(suffix)\<close>\<close>
  "endswith s suf = (length suf \<le> length s \<and> drop (length s - length suf) s = suf)"

fun split_on :: "char \<Rightarrow> string \<Rightarrow> string list" where
  \<comment> \<open>\<open>s.split(sep)\<close>: the fields between the separators, at least one field\<close>
  "split_on sep [] = [[]]"
| "split_on sep (c # cs) =
     (if c = sep then [] # split_on sep cs
      else (case split_on sep cs of
              [] \<Rightarrow> [[c]]
            | f # fs \<Rightarrow> (c # f) # fs))"

fun file_lines :: "string \<Rightarrow> string list" where
  \<comment> \<open>\<open>for line in f\<close>: the lines of a text, each with its terminator when it has one\<close>
  "file_lines [] = []"
| "file_lines (c # cs) =
     (if c = NL then [c] # file_lines cs
      else (case file_lines cs of
              [] \<Rightarrow> [[c]]
            | l # ls \<Rightarrow> (c # l) # ls))"

section \<open>Tables and the tabular reader\<close>

text \<open>
  A data frame is an ordered list of column labels and an ordered list of rows; a row
  holds one cell per column, by position.  A label is a name taken from a header line
  or, for a headerless frame, the position of the column.  Cells are kept as the text
  of their field; a missing value is the empty text, which is how it is written back.
\<close>

datatype label = Name string | Pos nat

record table =
  columns :: "label list"
  rows :: "string list list"

datatype header = HeaderNone | HeaderInfer

text \<open>
  The exceptions that pass through the code.  \<open>OSError\<close> stands for every operating
  system error without a name of its own here.  \<open>AttributeError\<close> is what
  \<open>raise luigi.TaskFailed(...)\<close> raises, \<open>luigi\<close> having no attribute of that name.
  \<open>Unsupported\<close> is no exception of the code: it ends a run that leaves the model,
  where it meets a name which is not a single file name (the paths of the code are
  not the paths of the model then), an archive member that is neither a file nor a
  directory, or a download onto a directory.
\<close>

datatype exn =
    AttributeError
  | BadGzipFile
  | FileNotFoundError
  | FileExistsError
  | IsADirectoryError
  | NotADirectoryError
  | OSError
  | EOFError
  | TarError
  | TransferError
  | ParserError
  | UnicodeDecodeError
  | Unsupported

definition is_OSError :: "exn \<Rightarrow> bool" where
  \<comment> \<open>what \<open>except OSError\<close> catches\<close>
  "is_OSError e = (e = OSError \<or> e = FileNotFoundError \<or> e = FileExistsError
                   \<or> e = IsADirectoryError \<or> e = NotADirectoryError \<or> e = BadGzipFile)"

datatype csv_result = Parsed table | EmptyDataError | Raised exn

type_synonym reader = "string \<Rightarrow> header \<Rightarrow> csv_result"

text \<open>
  \<open>pd.read_csv\<close> belongs to the tabular library, not to the repository, so the
  parser below takes the reader as a parameter.  \<open>read_csv\<close> is a reference reader
  for tab-separated text without quoting: blank lines are skipped; a text without any
  other line raises \<open>EmptyDataError\<close>; with \<open>header=None\<close> every line is a data
  row and the columns are numbered; with \<open>header='infer'\<close> the first line gives the
  names.  The width of the data is that of the first data line (or of the header when
  this is wider); shorter lines are filled with missing values, a later line that is
  wider raises \<open>ParserError\<close>, and surplus leading fields of a data line wider than
  the header form the index, which is not part of the columns.
\<close>

definition pad :: "nat \<Rightarrow> string list \<Rightarrow> string list" where
  "pad w fs = fs @ replicate (w - length fs) []"

definition data_lines :: "string \<Rightarrow> string list" where
  "data_lines buf = filter (\<lambda>l. l \<noteq> []) (split_on NL buf)"

definition read_csv :: reader where
  "read_csv buf hdr =
     (case map (split_on TAB) (data_lines buf) of
        [] \<Rightarrow> EmptyDataError
      | first # rest \<Rightarrow>
          (case hdr of
             HeaderNone \<Rightarrow>
               (let w = length first in
                if list_ex (\<lambda>r. w < length r) rest then Raised ParserError
                else Parsed \<lparr>columns = map Pos [0..<w], rows = first # map (pad w) rest\<rparr>)
           | HeaderInfer \<Rightarrow>
               (let h = length first;
                    w = (case rest of [] \<Rightarrow> h | r # _ \<Rightarrow> max h (length r)) in
                if list_ex (\<lambda>r. w < length r) rest then Raised ParserError
                else Parsed \<lparr>columns = map Name first,
                             rows = map (\<lambda>r. drop (w - h) (pad w r)) rest\<rparr>)))"

section \<open>The section parser of the Process stage\<close>

datatype log_entry = Info string | Warning string | Error string

text \<open>
  \<open>_finalize_section\<close> returns at once when \<open>not section\<close> holds (no section, or
  the empty name) or when nothing was written to the buffer (\<open>buffer.tell() == 0\<close>);
  only \<open>EmptyDataError\<close> is caught, any other exception of the reader leaves the
  function.

  \<open>dfs[section] = df\<close> on a Python dictionary: an existing key keeps its place and
  takes the new value, a new key goes to the end.
\<close>

fun dict_set :: "'k \<Rightarrow> 'v \<Rightarrow> ('k \<times> 'v) list \<Rightarrow> ('k \<times> 'v) list" where
  "dict_set k v [] = [(k, v)]"
| "dict_set k v ((k', v') # kvs) =
     (if k = k' then (k, v) # kvs else (k', v') # dict_set k v kvs)"

fun truthy :: "string option \<Rightarrow> bool" where
  \<comment> \<open>\<open>if current_section:\<close> is false for \<open>None\<close> and for the empty string\<close>
  "truthy None = False"
| "truthy (Some s) = (s \<noteq> [])"

definition header_policy :: "string \<Rightarrow> header" where
  \<comment> \<open>\<open>header = None if section == "Heading" else "infer"\<close>\<close>
  "header_policy section = (if section = ''Heading'' then HeaderNone else HeaderInfer)"

type_synonym frames = "(string \<times> table) list"

fun finalize_section ::
  "reader \<Rightarrow> frames \<times> log_entry list \<Rightarrow> string option \<Rightarrow> string
     \<Rightarrow> exn + frames \<times> log_entry list" where
  "finalize_section rd (dfs, lg) None buffer = Inr (dfs, lg)"
| "finalize_section rd (dfs, lg) (Some section) buffer =
     (if section = [] \<or> buffer = [] then Inr (dfs, lg)
      else (case rd buffer (header_policy section) of
              Parsed df \<Rightarrow> Inr (dict_set section df dfs, lg)
            | EmptyDataError \<Rightarrow>
                Inr (dfs, lg @ [Warning (''Empty section '' @ section @ '' in file'')])
            | Raised e \<Rightarrow> Inl e))"

record parser =
  dfs :: frames
  logged :: "log_entry list"
  current_section :: "string option"
  buffer :: string

definition initial :: "log_entry list \<Rightarrow> parser" where
  "initial lg = \<lparr>dfs = [], logged = lg, current_section = None, buffer = []\<rparr>"

definition feed :: "reader \<Rightarrow> parser \<Rightarrow> string \<Rightarrow> exn \<times> log_entry list + parser" where
  \<comment> \<open>one turn of the loop \<open>for line in f\<close>\<close>
  "feed rd s raw =
     (let line = strip raw in
      if startswith_bracket line then
        (case finalize_section rd (dfs s, logged s) (current_section s) (buffer s) of
           Inl e \<Rightarrow> Inl (e, logged s)
         | Inr (d, lg) \<Rightarrow>
             Inr \<lparr>dfs = d, logged = lg,
                  current_section = Some (strip_brackets line), buffer = []\<rparr>)
      else if truthy (current_section s) then Inr (s\<lparr>buffer := buffer s @ line @ [NL]\<rparr>)
      else Inr s)"

fun feed_all :: "reader \<Rightarrow> parser \<Rightarrow> string list \<Rightarrow> exn \<times> log_entry list + parser" where
  "feed_all rd s [] = Inr s"
| "feed_all rd s (l # ls) =
     (case feed rd s l of Inl e \<Rightarrow> Inl e | Inr s' \<Rightarrow> feed_all rd s' ls)"

definition parse_lines ::
  "reader \<Rightarrow> log_entry list \<Rightarrow> string list
     \<Rightarrow> exn \<times> log_entry list + frames \<times> log_entry list" where
  \<comment> \<open>\<open>_process_text_file\<close> up to the point where the tables are saved; an exception
      comes with what has been logged before it\<close>
  "parse_lines rd lg ls =
     (case feed_all rd (initial lg) ls of
        Inl e \<Rightarrow> Inl e
      | Inr s \<Rightarrow>
          (case finalize_section rd (dfs s, logged s) (current_section s) (buffer s) of
             Inl e \<Rightarrow> Inl (e, logged s)
           | Inr r \<Rightarrow> Inr r))"

definition parse_text ::
  "reader \<Rightarrow> log_entry list \<Rightarrow> string
     \<Rightarrow> exn \<times> log_entry list + frames \<times> log_entry list" where
  "parse_text rd lg txt = parse_lines rd lg (file_lines txt)"

section \<open>Pruning the columns of a Probes table\<close>

definition columns_to_drop :: "string list" where
  "columns_to_drop =
     [''Definition'', ''Ontology_Component'', ''Ontology_Process'',
      ''Ontology_Function'', ''Synonyms'', ''Obsolete_Probe_Id'', ''Probe_Sequence'']"

definition existing_columns :: "table \<Rightarrow> string list" where
  \<comment> \<open>\<open>[col for col in columns_to_drop if col in df.columns]\<close>\<close>
  "existing_columns df = filter (\<lambda>col. Name col \<in> set (columns df)) columns_to_drop"

definition drop_columns :: "string list \<Rightarrow> table \<Rightarrow> table" where
  \<comment> \<open>\<open>df.drop(columns=cols, errors='ignore')\<close>: every column with a listed label goes,
      a listed label that the frame does not have is passed over\<close>
  "drop_columns cols df =
     \<lparr>columns = filter (\<lambda>c. c \<notin> Name ` set cols) (columns df),
      rows = map (\<lambda>r. map snd (filter (\<lambda>(c, v). c \<notin> Name ` set cols) (zip (columns df) r)))
                 (rows df)\<rparr>"

definition prune :: "table \<Rightarrow> table" where
  \<comment> \<open>the frame that \<open>_process_probes_file\<close> writes, from the frame it has read\<close>
  "prune df = drop_columns (existing_columns df) df"

definition rectangular :: "table \<Rightarrow> bool" where
  "rectangular df = list_all (\<lambda>r. length r = length (columns df)) (rows df)"

definition cell :: "table \<Rightarrow> nat \<Rightarrow> label \<Rightarrow> string option" where
  \<comment> \<open>the value of row \<open>i\<close> in the (first) column labelled \<open>c\<close>\<close>
  "cell df i c = map_of (zip (columns df) (rows df ! i)) c"

definition spec_section_name :: "string \<Rightarrow> string" where
  \<comment> \<open>the name as the specification words it: the line without its first and its
      last character\<close>
  "spec_section_name line = butlast (tl line)"

section \<open>The workspace\<close>

text \<open>
  The working directory is a tree: a file holds its text, a directory holds its entries
  by name, in the order in which a listing returns them.  A path is the list of its
  components below the working directory.  The file system is a POSIX one that
  distinguishes upper and lower case; links, permissions and the limits of the
  system are not part of the tree.

  A name is taken for one component of a path where it is a single file name: not
  empty, neither \<open>.\<close> nor \<open>..\<close>, and without a slash or a null character.  For any other
  dataset id, archive member, stem of a compressed member or section name the code
  builds paths that the model does not follow.
\<close>

definition simple_name :: "string \<Rightarrow> bool" where
  "simple_name n = (n \<noteq> [] \<and> n \<noteq> ''.'' \<and> n \<noteq> ''..''
                    \<and> CHR ''/'' \<notin> set n \<and> CHR 0x00 \<notin> set n)"

datatype node = File string | Dir "(string \<times> node) list"

type_synonym path = "string list"

fun lookup :: "node \<Rightarrow> path \<Rightarrow> node option" where
  "lookup n [] = Some n"
| "lookup (File x) (c # p) = None"
| "lookup (Dir es) (c # p) = (case map_of es c of None \<Rightarrow> None | Some n \<Rightarrow> lookup n p)"

datatype kind = IsFile | IsDir

definition kind :: "node \<Rightarrow> path \<Rightarrow> kind option" where
  "kind r p =
     (case lookup r p of
        None \<Rightarrow> None
      | Some (File x) \<Rightarrow> Some IsFile
      | Some (Dir es) \<Rightarrow> Some IsDir)"

definition path_exists :: "node \<Rightarrow> path \<Rightarrow> bool" where
  \<comment> \<open>\<open>os.path.exists\<close>, the test of \<open>LocalTarget.exists()\<close>\<close>
  "path_exists r p = (lookup r p \<noteq> None)"

definition is_file :: "node \<Rightarrow> path \<Rightarrow> bool" where
  "is_file r p = (case lookup r p of Some (File x) \<Rightarrow> True | _ \<Rightarrow> False)"

definition is_empty_dir :: "node \<Rightarrow> path \<Rightarrow> bool" where
  \<comment> \<open>\<open>p.is_dir() and not any(p.iterdir())\<close>\<close>
  "is_empty_dir r p = (lookup r p = Some (Dir []))"

text \<open>
  \<open>alter g p\<close> replaces what is at \<open>p\<close> (nothing, a file or a directory) by what \<open>g\<close>
  makes of it; the directory that holds \<open>p\<close> must exist.
\<close>

fun alter :: "(node option \<Rightarrow> exn + node option) \<Rightarrow> path \<Rightarrow> node \<Rightarrow> exn + node" where
  "alter g [] n = Inl OSError"
| "alter g (c # p) (File x) = Inl NotADirectoryError"
| "alter g [c] (Dir es) =
     (case g (map_of es c) of
        Inl e \<Rightarrow> Inl e
      | Inr None \<Rightarrow> Inr (Dir (AList.delete c es))
      | Inr (Some n) \<Rightarrow> Inr (Dir (AList.update c n es)))"
| "alter g (c # d # p) (Dir es) =
     (case map_of es c of
        None \<Rightarrow> Inl FileNotFoundError
      | Some n \<Rightarrow>
          (case alter g (d # p) n of
             Inl e \<Rightarrow> Inl e
           | Inr n' \<Rightarrow> Inr (Dir (AList.update c n' es))))"

fun make_dir :: "node option \<Rightarrow> exn + node option" where
  "make_dir None = Inr (Some (Dir []))"
| "make_dir (Some (Dir es)) = Inr (Some (Dir es))"
| "make_dir (Some (File x)) = Inl FileExistsError"

definition mkdir :: "path \<Rightarrow> node \<Rightarrow> exn + node" where
  \<comment> \<open>\<open>p.mkdir(exist_ok=True)\<close>\<close>
  "mkdir p r = alter make_dir p r"

fun mkdir_parents :: "path \<Rightarrow> node \<Rightarrow> exn + node" where
  \<comment> \<open>\<open>p.mkdir(parents=True, exist_ok=True)\<close>\<close>
  "mkdir_parents [] (Dir es) = Inr (Dir es)"
| "mkdir_parents [] (File x) = Inl FileExistsError"
| "mkdir_parents (c # p) (File x) = Inl NotADirectoryError"
| "mkdir_parents (c # p) (Dir es) =
     (case mkdir_parents p (case map_of es c of None \<Rightarrow> Dir [] | Some n \<Rightarrow> n) of
        Inl e \<Rightarrow> Inl e
      | Inr n' \<Rightarrow> Inr (Dir (AList.update c n' es)))"

fun put_text :: "string \<Rightarrow> node option \<Rightarrow> exn + node option" where
  "put_text txt (Some (Dir es)) = Inl IsADirectoryError"
| "put_text txt _ = Inr (Some (File txt))"

definition write_file :: "path \<Rightarrow> string \<Rightarrow> node \<Rightarrow> exn + node" where
  \<comment> \<open>\<open>open(p, 'w')\<close>, write, close: the file is made or replaced\<close>
  "write_file p txt r = alter (put_text txt) p r"

fun drop_file :: "node option \<Rightarrow> exn + node option" where
  "drop_file None = Inl FileNotFoundError"
| "drop_file (Some (Dir es)) = Inl IsADirectoryError"
| "drop_file (Some (File x)) = Inr None"

definition unlink :: "path \<Rightarrow> node \<Rightarrow> exn + node" where
  \<comment> \<open>\<open>p.unlink()\<close>\<close>
  "unlink p r = alter drop_file p r"

fun drop_dir :: "node option \<Rightarrow> exn + node option" where
  "drop_dir None = Inl FileNotFoundError"
| "drop_dir (Some (File x)) = Inl NotADirectoryError"
| "drop_dir (Some (Dir [])) = Inr None"
| "drop_dir (Some (Dir (e # es))) = Inl OSError"

definition rmdir :: "path \<Rightarrow> node \<Rightarrow> exn + node" where
  \<comment> \<open>\<open>p.rmdir()\<close>\<close>
  "rmdir p r = alter drop_dir p r"

definition write_target :: "path \<Rightarrow> node \<Rightarrow> exn + node" where
  \<comment> \<open>\<open>with self.output().open('w') as f: f.write('done')\<close>: the target makes the
      directories above it where they are missing (errors passed over), writes a
      temporary file beside the path, under a random name that is taken to be free,
      and renames it onto the path when it is closed\<close>
  "write_target p r =
     write_file p ''done'' (case mkdir_parents (butlast p) r of Inl e \<Rightarrow> r | Inr r' \<Rightarrow> r')"

definition listdir :: "node \<Rightarrow> path \<Rightarrow> string list" where
  "listdir r p = (case lookup r p of Some (Dir es) \<Rightarrow> map fst es | _ \<Rightarrow> [])"

fun glob_rec :: "(string \<Rightarrow> bool) \<Rightarrow> node \<Rightarrow> path list" where
  \<comment> \<open>\<open>glob("**/" + pattern)\<close>, relative to the directory: the matching entries of a
      directory come before anything below its subdirectories\<close>
  "glob_rec P (File x) = []"
| "glob_rec P (Dir es) =
     map (\<lambda>e. [fst e]) (filter (\<lambda>e. P (fst e)) es)
     @ concat (map (\<lambda>e. map ((#) (fst e)) (glob_rec P (snd e))) es)"

definition glob_under :: "node \<Rightarrow> path \<Rightarrow> (string \<Rightarrow> bool) \<Rightarrow> path list" where
  "glob_under r dir P =
     (case lookup r dir of None \<Rightarrow> [] | Some n \<Rightarrow> map ((@) dir) (glob_rec P n))"

definition stem :: "string \<Rightarrow> string" where
  \<comment> \<open>\<open>Path.stem\<close>: the name up to its last dot, unless that dot is the first or the
      last character\<close>
  "stem name =
     (let k = length (dropWhile (\<lambda>c. c \<noteq> CHR ''.'') (rev name)) in
      if 1 < k \<and> k < length name then take (k - 1) name else name)"

section \<open>The stages\<close>

datatype stage = Download | Extract | Process | Trim | Cleanup

fun target :: "stage \<Rightarrow> string \<Rightarrow> path" where
  \<comment> \<open>\<open>output()\<close> of each task, the completion marker of the stage, for a dataset id
      that is a single file name\<close>
  "target Download D = [''data'', ''raw'', D @ ''_RAW.tar'']"
| "target Extract D = [''data'', ''extracted'', D, ''_unpacked'']"
| "target Process D = [''data'', ''processed'', D, ''_processed'']"
| "target Trim D = [''data'', ''trimmed'', D, ''_trimmed'']"
| "target Cleanup D = [''data'', ''cleanup'', D, ''_cleanup'']"

text \<open>
  The libraries that the stages call are parameters.
  \<^item> \<open>fetch\<close>: what \<open>wget.download\<close> obtains for a URL, or the exception of the
    transfer, with the random part of the name of the temporary file and the bytes
    in it when the transfer leaves that file behind.
  \<^item> \<open>untar\<close>: the members that \<open>extractall\<close> extracts for the bytes of an archive,
    in their order, before it returns or raises; a member is a regular file with
    its bytes, a directory, or of another type (a link, a device, a pipe), which
    the model does not follow.
  \<^item> \<open>gunzip\<close>: the bytes that \<open>gzip\<close> yields for the bytes of a member before it
    reaches the end or raises.
  \<^item> \<open>decode\<close>: the text that Python reads from the bytes of a file opened in text
    mode, or the exception of the codec.
  \<^item> \<open>read_table\<close>: the tabular reader; \<open>to_csv\<close>: the text written for a table.
\<close>

datatype member = Regular string | Directory | Other

record collaborators =
  fetch :: "string \<Rightarrow> exn \<times> (string \<times> string) option + string"
  untar :: "string \<Rightarrow> (string \<times> member) list \<times> exn option"
  gunzip :: "string \<Rightarrow> string \<times> exn option"
  decode :: "string \<Rightarrow> exn + string"
  read_table :: reader
  to_csv :: "table \<Rightarrow> string"

record world =
  root :: node
  journal :: "log_entry list"

definition url :: "string \<Rightarrow> string" where
  "url D = ''ftp://ftp.ncbi.nlm.nih.gov/geo/series/'' @ take 6 D @ ''nnn/'' @ D
             @ ''/suppl/'' @ D @ ''_RAW.tar''"

text \<open>
  \<open>wget.download(url, out)\<close> fetches into a temporary file beside \<open>out\<close>, named \<open>out\<close>
  plus eight random characters plus \<open>.tmp\<close>, and moves it to \<open>out\<close> at the end.  When
  \<open>out\<close> exists by then, the file goes to the name with \<open> (1)\<close> before the extension
  instead.  A transfer that breaks off can leave the temporary file.
\<close>

definition alternative :: "string \<Rightarrow> path" where
  "alternative D = [''data'', ''raw'', D @ ''_RAW (1).tar'']"

definition temporary :: "string \<Rightarrow> string \<Rightarrow> path" where
  "temporary D rnd = [''data'', ''raw'', D @ ''_RAW.tar'' @ rnd @ ''.tmp'']"

definition wget_download :: "collaborators \<Rightarrow> string \<Rightarrow> node \<Rightarrow> exn option \<times> node" where
  "wget_download c D r =
     (case fetch c (url D) of
        Inl (e, None) \<Rightarrow> (Some e, r)
      | Inl (e, Some (rnd, bytes)) \<Rightarrow>
          if simple_name rnd \<and> lookup r (temporary D rnd) = None
          then (case write_file (temporary D rnd) bytes r of
                  Inl e' \<Rightarrow> (Some e', r)
                | Inr r' \<Rightarrow> (Some e, r'))
          else (Some Unsupported, r)
      | Inr bytes \<Rightarrow>
          (case kind r (target Download D) of
             None \<Rightarrow>
               (case write_file (target Download D) bytes r of
                  Inl e \<Rightarrow> (Some e, r)
                | Inr r' \<Rightarrow> (None, r'))
           | Some IsFile \<Rightarrow>
               (case kind r (alternative D) of
                  Some IsDir \<Rightarrow> (Some Unsupported, r)
                | _ \<Rightarrow>
                    (case write_file (alternative D) bytes r of
                       Inl e \<Rightarrow> (Some e, r)
                     | Inr r' \<Rightarrow> (None, r')))
           | Some IsDir \<Rightarrow> (Some Unsupported, r)))"

definition run_download :: "collaborators \<Rightarrow> string \<Rightarrow> world \<Rightarrow> exn option \<times> world" where
  \<comment> \<open>\<open>DownloadDataset.run\<close>: \<open>except Exception\<close> catches whatever the download
      raises\<close>
  "run_download c D w =
     (case mkdir_parents (butlast (target Download D)) (root w) of
        Inl e \<Rightarrow> (Some e, w)
      | Inr r \<Rightarrow>
          (let lg = journal w @ [Info (''Downloading dataset '' @ D @ '' from '' @ url D)] in
           case wget_download c D r of
             (None, r') \<Rightarrow> (None, \<lparr>root = r', journal = lg\<rparr>)
           | (Some e, r') \<Rightarrow>
               if e = Unsupported then (Some Unsupported, \<lparr>root = r', journal = lg\<rparr>)
               else (Some AttributeError,
                     \<lparr>root = r', journal = lg @ [Error ''Failed to download dataset'']\<rparr>)))"

fun write_all :: "path \<Rightarrow> (string \<times> string) list \<Rightarrow> node \<Rightarrow> exn option \<times> node" where
  \<comment> \<open>the named texts are written into a directory, one after the other\<close>
  "write_all dir [] r = (None, r)"
| "write_all dir (m # ms) r =
     (case write_file (dir @ [fst m]) (snd m) r of
        Inl e \<Rightarrow> (Some e, r)
      | Inr r' \<Rightarrow> write_all dir ms r')"

fun extract_member :: "path \<Rightarrow> string \<times> member \<Rightarrow> node \<Rightarrow> exn + node" where
  "extract_member dir (name, Regular bytes) r = write_file (dir @ [name]) bytes r"
| "extract_member dir (name, Directory) r = mkdir (dir @ [name]) r"
| "extract_member dir (name, Other) r = Inl Unsupported"

fun extract_all :: "path \<Rightarrow> (string \<times> member) list \<Rightarrow> node \<Rightarrow> exn option \<times> node" where
  \<comment> \<open>\<open>tar.extractall(path=dir)\<close> for members named by a single file name\<close>
  "extract_all dir [] r = (None, r)"
| "extract_all dir (m # ms) r =
     (if \<not> simple_name (fst m) then (Some Unsupported, r)
      else (case extract_member dir m r of
              Inl e \<Rightarrow> (Some e, r)
            | Inr r' \<Rightarrow> extract_all dir ms r'))"

definition extract_try :: "collaborators \<Rightarrow> string \<Rightarrow> node \<Rightarrow> exn option \<times> node" where
  \<comment> \<open>the \<open>try\<close> block of \<open>ExtractMainArchive.run\<close>\<close>
  "extract_try c D r =
     (let output_path = target Extract D in
      case lookup r (target Download D) of
        None \<Rightarrow> (Some FileNotFoundError, r)
      | Some (Dir es) \<Rightarrow> (Some IsADirectoryError, r)
      | Some (File bytes) \<Rightarrow>
          (case extract_all (butlast output_path) (fst (untar c bytes)) r of
             (Some e, r') \<Rightarrow> (Some e, r')
           | (None, r') \<Rightarrow>
               (case snd (untar c bytes) of
                  Some e \<Rightarrow> (Some e, r')
                | None \<Rightarrow>
                    (case write_target output_path r' of
                       Inl e \<Rightarrow> (Some e, r')
                     | Inr r'' \<Rightarrow> (None, r'')))))"

definition run_extract :: "collaborators \<Rightarrow> string \<Rightarrow> world \<Rightarrow> exn option \<times> world" where
  \<comment> \<open>\<open>ExtractMainArchive.run\<close>\<close>
  "run_extract c D w =
     (case mkdir_parents (butlast (target Extract D)) (root w) of
        Inl e \<Rightarrow> (Some e, w)
      | Inr r \<Rightarrow>
          (case extract_try c D r of
             (None, r') \<Rightarrow> (None, w\<lparr>root := r'\<rparr>)
           | (Some e, r') \<Rightarrow>
               if e = TarError \<or> is_OSError e
               then (Some AttributeError,
                     \<lparr>root = r', journal = journal w @ [Error ''Archive extraction failed'']\<rparr>)
               else (Some e, w\<lparr>root := r'\<rparr>)))"

definition decompress :: "collaborators \<Rightarrow> path \<Rightarrow> path \<Rightarrow> node \<Rightarrow> exn option \<times> node" where
  \<comment> \<open>\<open>with gzip.open(gz_file, 'rb') as f_in, open(txt_path, 'wb') as f_out:
      shutil.copyfileobj(f_in, f_out)\<close>: what has been copied stays when the copy raises\<close>
  "decompress c gz_file txt_path r =
     (case lookup r gz_file of
        None \<Rightarrow> (Some FileNotFoundError, r)
      | Some (Dir es) \<Rightarrow> (Some IsADirectoryError, r)
      | Some (File bytes) \<Rightarrow>
          (case write_file txt_path (fst (gunzip c bytes)) r of
             Inl e \<Rightarrow> (Some e, r)
           | Inr r' \<Rightarrow> (snd (gunzip c bytes), r')))"

definition process_text_file ::
  "collaborators \<Rightarrow> path \<Rightarrow> path \<Rightarrow> world \<Rightarrow> exn option \<times> world" where
  \<comment> \<open>\<open>ProcessFiles._process_text_file\<close>; the tables are saved when every section
      name makes a single file name with \<open>.tsv\<close>\<close>
  "process_text_file c txt_path tables_dir w =
     (case lookup (root w) txt_path of
        None \<Rightarrow> (Some FileNotFoundError, w)
      | Some (Dir es) \<Rightarrow> (Some IsADirectoryError, w)
      | Some (File bytes) \<Rightarrow>
          (case decode c bytes of
             Inl e \<Rightarrow> (Some e, w)
           | Inr txt \<Rightarrow>
               (case parse_text (read_table c) (journal w) txt of
                  Inl (e, lg) \<Rightarrow> (Some e, w\<lparr>journal := lg\<rparr>)
                | Inr (tables, lg) \<Rightarrow>
                    if \<not> list_all (\<lambda>sd. simple_name (fst sd @ ''.tsv'')) tables
                    then (Some Unsupported, w\<lparr>journal := lg\<rparr>)
                    else (case write_all tables_dir
                                 (map (\<lambda>sd. (fst sd @ ''.tsv'', to_csv c (snd sd))) tables)
                                 (root w) of
                            (e, r') \<Rightarrow> (e, \<lparr>root = r', journal = lg\<rparr>)))))"

definition process_file ::
  "collaborators \<Rightarrow> path \<Rightarrow> path \<Rightarrow> string \<Rightarrow> world \<Rightarrow> exn option \<times> world" where
  \<comment> \<open>one turn of the loop of \<open>ProcessFiles.run\<close>; \<open>None\<close> also stands for
      \<open>continue\<close>\<close>
  "process_file c input_dir output_dir gz w =
     (let file_stem = stem gz;
          file_dir = output_dir @ [file_stem];
          txt_path = file_dir @ [file_stem @ ''.txt''] in
      if \<not> simple_name file_stem then (Some Unsupported, w)
      else
      case mkdir file_dir (root w) of
        Inl e \<Rightarrow> (Some e, w)
      | Inr r \<Rightarrow>
          (case decompress c (input_dir @ [gz]) txt_path r of
             (Some e, r') \<Rightarrow>
               if e = BadGzipFile \<or> is_OSError e
               then (None, \<lparr>root = r',
                            journal = journal w @ [Error (''Failed to decompress '' @ gz)]\<rparr>)
               else (Some e, w\<lparr>root := r'\<rparr>)
           | (None, r') \<Rightarrow>
               (let tables_dir = file_dir @ [''tables''] in
                case mkdir tables_dir r' of
                  Inl e \<Rightarrow> (Some e, w\<lparr>root := r'\<rparr>)
                | Inr r'' \<Rightarrow> process_text_file c txt_path tables_dir (w\<lparr>root := r''\<rparr>))))"

fun process_files ::
  "collaborators \<Rightarrow> path \<Rightarrow> path \<Rightarrow> string list \<Rightarrow> world \<Rightarrow> exn option \<times> world" where
  "process_files c input_dir output_dir [] w = (None, w)"
| "process_files c input_dir output_dir (gz # gzs) w =
     (case process_file c input_dir output_dir gz w of
        (Some e, w') \<Rightarrow> (Some e, w')
      | (None, w') \<Rightarrow> process_files c input_dir output_dir gzs w')"

definition finish :: "stage \<Rightarrow> string \<Rightarrow> world \<Rightarrow> exn option \<times> world" where
  \<comment> \<open>the last statement of a stage: its marker is written\<close>
  "finish S D w =
     (case write_target (target S D) (root w) of
        Inl e \<Rightarrow> (Some e, w)
      | Inr r \<Rightarrow> (None, w\<lparr>root := r\<rparr>))"

definition gz_files :: "node \<Rightarrow> string \<Rightarrow> string list" where
  \<comment> \<open>\<open>input_dir.glob("*.gz")\<close>\<close>
  "gz_files r D = filter (\<lambda>n. endswith n ''.gz'') (listdir r [''data'', ''extracted'', D])"

definition run_process :: "collaborators \<Rightarrow> string \<Rightarrow> world \<Rightarrow> exn option \<times> world" where
  \<comment> \<open>\<open>ProcessFiles.run\<close>\<close>
  "run_process c D w =
     (let input_dir = [''data'', ''extracted'', D];
          output_dir = [''data'', ''processed'', D] in
      case mkdir_parents output_dir (root w) of
        Inl e \<Rightarrow> (Some e, w)
      | Inr r \<Rightarrow>
          (case process_files c input_dir output_dir (gz_files r D) (w\<lparr>root := r\<rparr>) of
             (Some e, w') \<Rightarrow> (Some e, w')
           | (None, w') \<Rightarrow> finish Process D w'))"

definition process_probes_file :: "collaborators \<Rightarrow> path \<Rightarrow> path \<Rightarrow> world \<Rightarrow> world" where
  \<comment> \<open>\<open>TrimProbes._process_probes_file\<close>: every exception is caught and logged\<close>
  "process_probes_file c input_path output_dir w =
     (let failed = w\<lparr>journal := journal w @ [Error ''Failed to process Probes file'']\<rparr> in
      case lookup (root w) input_path of
        Some (File txt) \<Rightarrow>
          (case read_table c txt HeaderInfer of
             Parsed df \<Rightarrow>
               (case write_file (output_dir @ [''Probes_trimmed.tsv''])
                       (to_csv c (prune df)) (root w) of
                  Inl e \<Rightarrow> failed
                | Inr r \<Rightarrow> w\<lparr>root := r\<rparr>)
           | _ \<Rightarrow> failed)
      | _ \<Rightarrow> failed)"

fun trim_files ::
  "collaborators \<Rightarrow> path \<Rightarrow> path \<Rightarrow> path list \<Rightarrow> world \<Rightarrow> exn option \<times> world" where
  \<comment> \<open>the loop of \<open>TrimProbes.run\<close> over the paths of the \<open>Probes.tsv\<close> files,
      relative to the processed directory\<close>
  "trim_files c processed_dir output_dir [] w = (None, w)"
| "trim_files c processed_dir output_dir (probes # others) w =
     (let trimmed_dir = output_dir @ butlast probes in
      case mkdir_parents trimmed_dir (root w) of
        Inl e \<Rightarrow> (Some e, w)
      | Inr r \<Rightarrow>
          trim_files c processed_dir output_dir others
            (process_probes_file c (processed_dir @ probes) trimmed_dir (w\<lparr>root := r\<rparr>)))"

definition probes_files :: "node \<Rightarrow> string \<Rightarrow> path list" where
  \<comment> \<open>\<open>processed_dir.glob("**/Probes.tsv")\<close>, relative to the processed directory\<close>
  "probes_files r D =
     (case lookup r [''data'', ''processed'', D] of
        None \<Rightarrow> []
      | Some n \<Rightarrow> glob_rec (\<lambda>n. n = ''Probes.tsv'') n)"

definition run_trim :: "collaborators \<Rightarrow> string \<Rightarrow> world \<Rightarrow> exn option \<times> world" where
  \<comment> \<open>\<open>TrimProbes.run\<close>\<close>
  "run_trim c D w =
     (let processed_dir = [''data'', ''processed'', D];
          output_dir = [''data'', ''trimmed'', D] in
      case trim_files c processed_dir output_dir (probes_files (root w) D) w of
        (Some e, w') \<Rightarrow> (Some e, w')
      | (None, w') \<Rightarrow> finish Trim D w')"

fun unlink_all :: "path list \<Rightarrow> node \<Rightarrow> exn option \<times> node" where
  \<comment> \<open>the first loop of \<open>Cleanup.run\<close>: only \<open>FileNotFoundError\<close> is caught\<close>
  "unlink_all [] r = (None, r)"
| "unlink_all (p # ps) r =
     (case unlink p r of
        Inl e \<Rightarrow> if e = FileNotFoundError then unlink_all ps r else (Some e, r)
      | Inr r' \<Rightarrow> unlink_all ps r')"

fun remove_empty :: "path list \<Rightarrow> node \<Rightarrow> node" where
  \<comment> \<open>the second loop of \<open>Cleanup.run\<close>: a path that is an empty directory when the
      loop reaches it is removed\<close>
  "remove_empty [] r = r"
| "remove_empty (p # ps) r =
     (if is_empty_dir r p
      then (case rmdir p r of Inl e \<Rightarrow> remove_empty ps r | Inr r' \<Rightarrow> remove_empty ps r')
      else remove_empty ps r)"

definition cleanup_body :: "string \<Rightarrow> node \<Rightarrow> exn option \<times> node" where
  \<comment> \<open>the two loops of \<open>Cleanup.run\<close>\<close>
  "cleanup_body D r =
     (let processed_dir = [''data'', ''processed'', D] in
      case unlink_all (glob_under r processed_dir (\<lambda>n. endswith n ''.txt'')) r of
        (Some e, r') \<Rightarrow> (Some e, r')
      | (None, r') \<Rightarrow> (None, remove_empty (glob_under r' processed_dir (\<lambda>n. True)) r'))"

definition run_cleanup :: "collaborators \<Rightarrow> string \<Rightarrow> world \<Rightarrow> exn option \<times> world" where
  \<comment> \<open>\<open>Cleanup.run\<close>\<close>
  "run_cleanup c D w =
     (case cleanup_body D (root w) of
        (Some e, r) \<Rightarrow> (Some e, w\<lparr>root := r\<rparr>)
      | (None, r) \<Rightarrow> finish Cleanup D (w\<lparr>root := r\<rparr>))"

fun body :: "stage \<Rightarrow> collaborators \<Rightarrow> string \<Rightarrow> world \<Rightarrow> exn option \<times> world" where
  "body Download = run_download"
| "body Extract = run_extract"
| "body Process = run_process"
| "body Trim = run_trim"
| "body Cleanup = run_cleanup"

definition run :: "stage \<Rightarrow> collaborators \<Rightarrow> string \<Rightarrow> world \<Rightarrow> exn option \<times> world" where
  \<comment> \<open>the body of a stage for a dataset id that is a single file name\<close>
  "run S c D w = (if simple_name D then body S c D w else (Some Unsupported, w))"


section \<open>Sample collaborators and workspaces\<close>

text \<open>
  For the evaluation of the stages on given workspaces: a writer of tab-separated
  text, collaborators that take the bytes of a compressed member for its text, and
  workspaces.
\<close>

fun show_nat :: "nat \<Rightarrow> string" where
  "show_nat n =
     (if n < 10 then [char_of (48 + n)]
      else show_nat (n div 10) @ [char_of (48 + n mod 10)])"

fun show_label :: "label \<Rightarrow> string" where
  "show_label (Name s) = s"
| "show_label (Pos n) = show_nat n"

fun join :: "string \<Rightarrow> string list \<Rightarrow> string" where
  "join sep [] = []"
| "join sep [x] = x"
| "join sep (x # y # ys) = x @ sep @ join sep (y # ys)"

definition render :: "table \<Rightarrow> string" where
  \<comment> \<open>\<open>df.to_csv(path, sep='\t', index=False)\<close>: the labels, then the rows\<close>
  "render df =
     concat (map (\<lambda>r. join [TAB] r @ [NL]) (map show_label (columns df) # rows df))"

definition plain :: collaborators where
  "plain = \<lparr>fetch = (\<lambda>u. Inl (TransferError, None)), untar = (\<lambda>b. ([], Some TarError)),
            gunzip = (\<lambda>b. (b, None)), decode = Inr, read_table = read_csv,
            to_csv = render\<rparr>"

definition ragged_text :: string where
  \<comment> \<open>section \<open>A\<close> with two columns, whose second data line has three fields\<close>
  "ragged_text =
     ''[A]'' @ [NL] @ ''x'' @ [TAB] @ ''y'' @ [NL] @ ''1'' @ [TAB] @ ''2'' @ [NL]
       @ ''3'' @ [TAB] @ ''4'' @ [TAB] @ ''5'' @ [NL]"

definition good_text :: string where
  "good_text = ''[B]'' @ [NL] @ ''p'' @ [TAB] @ ''q'' @ [NL] @ ''3'' @ [TAB] @ ''4'' @ [NL]"

definition ragged_ws :: node where
  \<comment> \<open>an extracted dataset with the members \<open>a.gz\<close> and \<open>b.gz\<close>\<close>
  "ragged_ws =
     Dir [(''data'', Dir [(''extracted'', Dir [(''GSE1'',
       Dir [(''a.gz'', File ragged_text), (''b.gz'', File good_text),
            (''_unpacked'', File ''done'')])])])]"

definition suffixed_ws :: node where
  \<comment> \<open>a processed dataset whose member was \<open>s.txt.gz\<close>: the directory of the
      member is named \<open>s.txt\<close>\<close>
  "suffixed_ws =
     Dir [(''data'', Dir [(''processed'', Dir [(''GSE1'',
       Dir [(''s.txt'', Dir [(''s.txt.txt'', File good_text),
                             (''tables'', Dir [(''B.tsv'', File [])])]),
            (''_processed'', File ''done'')])])])]"

definition nested_ws :: node where
  \<comment> \<open>a processed dataset whose member \<open>c\<close> had no section: its directory holds the
      decompressed text and an empty directory of tables\<close>
  "nested_ws =
     Dir [(''data'', Dir [(''processed'', Dir [(''GSE1'',
       Dir [(''c'', Dir [(''c.txt'', File []), (''tables'', Dir [])]),
            (''_processed'', File ''done'')])])])]"


section \<open>Markers and completed stages\<close>




text \<open>
  Samples: the bodies of given stages run one after the other; collaborators for a
  download that succeeds and an archive that breaks off after two members, the first
  of which is named \<open>_unpacked\<close>; collaborators for an archive with one compressed
  member that holds a Probes table; collaborators for archives whose compressed member
  has the stem \<open>_processed\<close> or \<open>_trimmed\<close>; workspaces.
\<close>

fun run_all :: "stage list \<Rightarrow> collaborators \<Rightarrow> string \<Rightarrow> world \<Rightarrow> world" where
  "run_all [] c D w = w"
| "run_all (S # Ss) c D w = run_all Ss c D (snd (run S c D w))"


definition probes_text :: string where
  "probes_text = ''[Probes]'' @ [NL] @ ''Probe_Id'' @ [TAB] @ ''Definition'' @ [NL]
                   @ ''P1'' @ [TAB] @ ''kinase'' @ [NL]"


definition processed_stem :: collaborators where
  "processed_stem = plain\<lparr>fetch := (\<lambda>u. Inr ''archive''),
                           untar := (\<lambda>b. ([(''_processed.gz'', Regular good_text)], None))\<rparr>"

definition trimmed_stem :: collaborators where
  "trimmed_stem = plain\<lparr>fetch := (\<lambda>u. Inr ''archive''),
                         untar := (\<lambda>b. ([(''_trimmed.gz'', Regular probes_text)], None))\<rparr>"

definition cleared_ws :: world where
  "cleared_ws = \<lparr>root = Dir [], journal = []\<rparr>"




section \<open>Properties of the string functions\<close>

lemma strip_where_decomp:
  "\<exists>pre suf. s = pre @ strip_where P s @ suf \<and> list_all P pre \<and> list_all P suf"
proof -
  let ?a = "takeWhile P s" and ?m = "dropWhile P s"
  let ?b = "takeWhile P (rev ?m)"
  have 1: "s = ?a @ ?m" by simp
  have "rev ?m = ?b @ dropWhile P (rev ?m)" by simp
  then have "?m = rev (dropWhile P (rev ?m)) @ rev ?b"
    by (metis rev_append rev_rev_ident)
  then have 2: "s = ?a @ strip_where P s @ rev ?b"
    unfolding strip_where_def using 1 by (metis)
  have 3: "list_all P ?a" by (simp add: list_all_iff) (meson set_takeWhileD)
  have 4: "list_all P (rev ?b)" by (simp add: list_all_iff) (meson set_takeWhileD)
  from 2 3 4 show ?thesis by blast
qed

lemma strip_where_last: "strip_where P s \<noteq> [] \<Longrightarrow> \<not> P (last (strip_where P s))"
  unfolding strip_where_def
  by (metis hd_dropWhile last_rev rev_is_Nil_conv)

lemma dropWhile_rev_hd:
  "dropWhile P (rev xs) \<noteq> [] \<Longrightarrow> xs \<noteq> [] \<Longrightarrow> last (dropWhile P (rev xs)) = hd xs"
  by (induction xs) (auto simp: dropWhile_append split: if_splits)

lemma strip_where_hd: "strip_where P s \<noteq> [] \<Longrightarrow> \<not> P (hd (strip_where P s))"
proof -
  assume a: "strip_where P s \<noteq> []"
  let ?m = "dropWhile P s"
  from a have m: "?m \<noteq> []" unfolding strip_where_def by fastforce
  from a have d: "dropWhile P (rev ?m) \<noteq> []" unfolding strip_where_def by simp
  have "hd (strip_where P s) = last (dropWhile P (rev ?m))"
    unfolding strip_where_def using d by (simp add: hd_rev)
  also have "\<dots> = hd ?m" using dropWhile_rev_hd[OF d m] .
  finally show ?thesis using m hd_dropWhile by metis
qed

lemma strip_where_empty: "(strip_where P s = []) = list_all P s"
proof
  assume "strip_where P s = []"
  with strip_where_decomp[of s P] show "list_all P s" by (auto simp: list_all_iff)
next
  assume "list_all P s"
  then have "dropWhile P s = []" by (simp add: list_all_iff)
  then show "strip_where P s = []" unfolding strip_where_def by (simp only: rev.simps dropWhile.simps)
qed

section \<open>Properties of the section parser\<close>

lemma map_fst_dict_set:
  "map fst (dict_set k v kvs) = (if k \<in> set (map fst kvs) then map fst kvs else map fst kvs @ [k])"
  by (induction kvs) (auto simp del: set_map)

lemma keys_dict_set: "set (map fst (dict_set k v kvs)) = insert k (set (map fst kvs))"
  unfolding map_fst_dict_set by (auto simp del: set_map)

lemma finalize_keys:
  "finalize_section rd (d, lg) sec buf = Inr (d', lg') \<Longrightarrow> [] \<notin> set (map fst d) \<Longrightarrow> [] \<notin> set (map fst d')"
  by (cases sec) (auto simp: keys_dict_set simp del: set_map split: if_splits csv_result.splits)

lemma feed_keys:
  "feed rd s l = Inr s' \<Longrightarrow> [] \<notin> set (map fst (dfs s)) \<Longrightarrow> [] \<notin> set (map fst (dfs s'))"
  unfolding feed_def Let_def
  by (auto simp del: set_map split: if_splits sum.splits dest: finalize_keys)

lemma feed_all_keys:
  "feed_all rd s ls = Inr s' \<Longrightarrow> [] \<notin> set (map fst (dfs s)) \<Longrightarrow> [] \<notin> set (map fst (dfs s'))"
  by (induction ls arbitrary: s) (auto simp del: set_map split: sum.splits dest: feed_keys)

lemma parse_lines_keys:
  "parse_lines rd lg ls = Inr (d, lg') \<Longrightarrow> [] \<notin> set (map fst d)"
  unfolding parse_lines_def
  by (auto simp del: set_map split: sum.splits dest!: feed_all_keys finalize_keys simp: initial_def)

lemma feed_content_idle:
  "\<not> truthy (current_section s) \<Longrightarrow> \<not> startswith_bracket (strip l) \<Longrightarrow> feed rd s l = Inr s"
  by (simp add: feed_def)

lemma feed_all_content_idle:
  "\<not> truthy (current_section s) \<Longrightarrow> list_all (\<lambda>l. \<not> startswith_bracket (strip l)) cs
     \<Longrightarrow> feed_all rd s (cs @ rest) = feed_all rd s rest"
  by (induction cs) (auto simp: feed_content_idle)

lemma feed_header_section:
  "feed rd s h = Inr s' \<Longrightarrow> startswith_bracket (strip h)
    \<Longrightarrow> current_section s' = Some (strip_brackets (strip h)) \<and> buffer s' = []"
  unfolding feed_def Let_def by (auto split: sum.splits)

lemma finalize_cong_reader:
  "rd buf (header_policy sec) = rd' buf (header_policy sec)
    \<Longrightarrow> finalize_section rd st (Some sec) buf = finalize_section rd' st (Some sec) buf"
  by (cases st) simp

lemma read_csv_headerless:
  assumes "read_csv buf HeaderNone = Parsed df"
  shows "columns df = map Pos [0..<length (columns df)]
       \<and> length (rows df) = length (data_lines buf)
       \<and> hd (rows df) = split_on TAB (hd (data_lines buf))"
proof (cases "data_lines buf")
  case Nil
  with assms show ?thesis by (simp add: read_csv_def)
next
  case (Cons l ls)
  with assms show ?thesis
    by (auto simp: read_csv_def Let_def split: if_splits)
qed

lemma read_csv_header:
  assumes "read_csv buf HeaderInfer = Parsed df"
  shows "columns df = map Name (split_on TAB (hd (data_lines buf)))
       \<and> Suc (length (rows df)) = length (data_lines buf)"
proof (cases "data_lines buf")
  case Nil
  with assms show ?thesis by (simp add: read_csv_def)
next
  case (Cons l ls)
  with assms show ?thesis
    by (auto simp: read_csv_def Let_def split: if_splits)
qed

lemma read_csv_empty: "(read_csv buf hdr = EmptyDataError) = (data_lines buf = [])"
  by (cases "data_lines buf"; cases hdr) (auto simp: read_csv_def Let_def)

text \<open>
  C3.  The text with the two sections \<open>[A]\<close> and \<open>[B]\<close>, each with a header line
  and one data line, gives exactly two tables, in this order: \<open>A\<close> with the columns
  \<open>x\<close>, \<open>y\<close> and the row \<open>1\<close>, \<open>2\<close>, and \<open>B\<close> with the columns \<open>p\<close>, \<open>q\<close>
  and the row \<open>3\<close>, \<open>4\<close>; nothing is logged.
\<close>

theorem section_round_trip: "parse_text read_csv []
     (''[A]'' @ [NL] @ ''x'' @ [TAB] @ ''y'' @ [NL] @ ''1'' @ [TAB] @ ''2'' @ [NL] @
      ''[B]'' @ [NL] @ ''p'' @ [TAB] @ ''q'' @ [NL] @ ''3'' @ [TAB] @ ''4'' @ [NL])
   = Inr ([(''A'', \<lparr>columns = [Name ''x'', Name ''y''], rows = [[''1'', ''2'']]\<rparr>),
           (''B'', \<lparr>columns = [Name ''p'', Name ''q''], rows = [[''3'', ''4'']]\<rparr>)], [])"
  by code_simp

text \<open>
  C4.  The header mode handed to the reader depends on the section name alone: for
  \<open>Heading\<close> the reader is called headerless, for every other name with an inferred
  header.  With the reference reader a headerless table has numbered columns and one
  row per line of the buffer, the first line included; with an inferred header the
  first line gives the column names and the other lines are the rows.  For \<open>Heading\<close>
  with the lines \<open>foo<TAB>bar\<close> and \<open>1<TAB>2\<close> both lines are data rows.
\<close>

theorem heading_headerless:
  "finalize_section rd st (Some ''Heading'') buf
      = finalize_section (\<lambda>b h. rd b HeaderNone) st (Some ''Heading'') buf
   \<and> (section \<noteq> ''Heading'' \<longrightarrow>
        finalize_section rd st (Some section) buf
          = finalize_section (\<lambda>b h. rd b HeaderInfer) st (Some section) buf)
   \<and> (read_csv buf (header_policy ''Heading'') = Parsed df \<longrightarrow>
        columns df = map Pos [0..<length (columns df)]
        \<and> length (rows df) = length (data_lines buf)
        \<and> hd (rows df) = split_on TAB (hd (data_lines buf)))
   \<and> (section \<noteq> ''Heading'' \<and> read_csv buf (header_policy section) = Parsed df \<longrightarrow>
        columns df = map Name (split_on TAB (hd (data_lines buf)))
        \<and> Suc (length (rows df)) = length (data_lines buf))
   \<and> finalize_section read_csv ([], []) (Some ''Heading'')
        (''foo'' @ [TAB] @ ''bar'' @ [NL] @ ''1'' @ [TAB] @ ''2'' @ [NL])
      = Inr ([(''Heading'', \<lparr>columns = [Pos 0, Pos 1],
                               rows = [[''foo'', ''bar''], [''1'', ''2'']]\<rparr>)], [])"
proof (intro conjI impI)
  show "finalize_section rd st (Some ''Heading'') buf
      = finalize_section (\<lambda>b h. rd b HeaderNone) st (Some ''Heading'') buf"
    by (rule finalize_cong_reader) (simp add: header_policy_def)
  show "finalize_section rd st (Some section) buf
          = finalize_section (\<lambda>b h. rd b HeaderInfer) st (Some section) buf"
    if "section \<noteq> ''Heading''"
    using that by (intro finalize_cong_reader) (simp add: header_policy_def)
  show "finalize_section read_csv ([], []) (Some ''Heading'')
        (''foo'' @ [TAB] @ ''bar'' @ [NL] @ ''1'' @ [TAB] @ ''2'' @ [NL])
      = Inr ([(''Heading'', \<lparr>columns = [Pos 0, Pos 1],
                               rows = [[''foo'', ''bar''], [''1'', ''2'']]\<rparr>)], [])"
    by code_simp
qed (use read_csv_headerless[of buf df] read_csv_header[of buf df] in \<open>auto simp: header_policy_def\<close>)

theorem heading_headerless_witness:
  "read_csv (''foo'' @ [TAB] @ ''bar'' @ [NL] @ ''1'' @ [TAB] @ ''2'' @ [NL]) (header_policy ''Heading'')
     = Parsed \<lparr>columns = [Pos 0, Pos 1], rows = [[''foo'', ''bar''], [''1'', ''2'']]\<rparr>
   \<and> ''Probes'' \<noteq> ''Heading''
   \<and> read_csv (''foo'' @ [TAB] @ ''bar'' @ [NL] @ ''1'' @ [TAB] @ ''2'' @ [NL]) (header_policy ''Probes'')
     = Parsed \<lparr>columns = [Name ''foo'', Name ''bar''], rows = [[''1'', ''2'']]\<rparr>
   \<and> finalize_section read_csv ([], []) (Some ''Probes'')
        (''foo'' @ [TAB] @ ''bar'' @ [NL] @ ''1'' @ [TAB] @ ''2'' @ [NL])
      = finalize_section (\<lambda>b h. read_csv b HeaderInfer) ([], []) (Some ''Probes'')
        (''foo'' @ [TAB] @ ''bar'' @ [NL] @ ''1'' @ [TAB] @ ''2'' @ [NL])"
proof -
  have a: "read_csv (''foo'' @ [TAB] @ ''bar'' @ [NL] @ ''1'' @ [TAB] @ ''2'' @ [NL]) (header_policy ''Heading'')
     = Parsed \<lparr>columns = [Pos 0, Pos 1], rows = [[''foo'', ''bar''], [''1'', ''2'']]\<rparr>"
    by code_simp
  have b: "read_csv (''foo'' @ [TAB] @ ''bar'' @ [NL] @ ''1'' @ [TAB] @ ''2'' @ [NL]) (header_policy ''Probes'')
     = Parsed \<lparr>columns = [Name ''foo'', Name ''bar''], rows = [[''1'', ''2'']]\<rparr>"
    by code_simp
  have c: "''Probes'' \<noteq> ''Heading''" by simp
  from a b c heading_headerless[of read_csv "([], [])"
      "''foo'' @ [TAB] @ ''bar'' @ [NL] @ ''1'' @ [TAB] @ ''2'' @ [NL]" "''Probes''"
      "\<lparr>columns = [Name ''foo'', Name ''bar''], rows = [[''1'', ''2'']]\<rparr>"]
  show ?thesis by blast
qed

text \<open>
  The specification has the name of a section be the line without its first and its
  last bracket; the code removes every leading and trailing bracket, so the line
  \<open>[[A]]\<close> opens the section \<open>A\<close>, not \<open>[A]\<close>.
\<close>

theorem section_name_counterexample:
  "feed read_csv (initial []) ''[[A]]''
     = Inr \<lparr>dfs = [], logged = [], current_section = Some ''A'', buffer = []\<rparr>
   \<and> Some ''A'' \<noteq> Some (spec_section_name (strip ''[[A]]''))"
  by code_simp

text \<open>
  C5 (amended).  A line that starts with \<open>[\<close> once surrounding whitespace is removed
  finalizes the active section and opens a section with an empty buffer, whose name
  is that line without all of its leading and trailing bracket characters: the line
  is the name between two runs of brackets, and a name that is not empty neither
  starts nor ends with a bracket.
\<close>

theorem header_line_opens_section:
  assumes "startswith_bracket (strip raw)"
  shows "feed rd s raw =
           (case finalize_section rd (dfs s, logged s) (current_section s) (buffer s) of
              Inl e \<Rightarrow> Inl (e, logged s)
            | Inr (d, lg) \<Rightarrow>
                Inr \<lparr>dfs = d, logged = lg,
                     current_section = Some (strip_brackets (strip raw)), buffer = []\<rparr>)
       \<and> (\<exists>pre suf. strip raw = pre @ strip_brackets (strip raw) @ suf
                    \<and> list_all is_bracket pre \<and> list_all is_bracket suf)
       \<and> (strip_brackets (strip raw) \<noteq> [] \<longrightarrow>
             \<not> is_bracket (hd (strip_brackets (strip raw)))
           \<and> \<not> is_bracket (last (strip_brackets (strip raw))))"
proof (intro conjI impI)
  show "feed rd s raw =
           (case finalize_section rd (dfs s, logged s) (current_section s) (buffer s) of
              Inl e \<Rightarrow> Inl (e, logged s)
            | Inr (d, lg) \<Rightarrow>
                Inr \<lparr>dfs = d, logged = lg,
                     current_section = Some (strip_brackets (strip raw)), buffer = []\<rparr>)"
    using assms by (simp add: feed_def)
  show "\<exists>pre suf. strip raw = pre @ strip_brackets (strip raw) @ suf
                    \<and> list_all is_bracket pre \<and> list_all is_bracket suf"
    unfolding strip_brackets_def by (rule strip_where_decomp)
  show "\<not> is_bracket (hd (strip_brackets (strip raw)))" if "strip_brackets (strip raw) \<noteq> []"
    using that unfolding strip_brackets_def by (rule strip_where_hd)
  show "\<not> is_bracket (last (strip_brackets (strip raw)))" if "strip_brackets (strip raw) \<noteq> []"
    using that unfolding strip_brackets_def by (rule strip_where_last)
qed

theorem header_line_opens_section_witness:
  "startswith_bracket (strip ''[[A]]'')
   \<and> feed read_csv (initial []) ''[[A]]''
       = Inr \<lparr>dfs = [], logged = [], current_section = Some ''A'', buffer = []\<rparr>"
proof -
  have h: "startswith_bracket (strip ''[[A]]'')" by code_simp
  have n: "strip_brackets (strip ''[[A]]'') = ''A''" by code_simp
  have "feed read_csv (initial []) ''[[A]]'' =
           (case finalize_section read_csv (dfs (initial []), logged (initial []))
                   (current_section (initial [])) (buffer (initial [])) of
              Inl e \<Rightarrow> Inl (e, logged (initial []))
            | Inr (d, lg) \<Rightarrow>
                Inr \<lparr>dfs = d, logged = lg,
                     current_section = Some (strip_brackets (strip ''[[A]]'')), buffer = []\<rparr>)"
    using header_line_opens_section[OF h, where rd = read_csv and s = "initial []"] by blast
  then show ?thesis using h n by (simp add: initial_def)
qed

text \<open>
  A buffer that holds a header line and nothing else is parsed without an exception:
  the table with these columns and no row is stored, and no warning is logged.
\<close>

theorem header_only_counterexample:
  "finalize_section read_csv ([], []) (Some ''A'') (''x'' @ [TAB] @ ''y'' @ [NL])
     = Inr ([(''A'', \<lparr>columns = [Name ''x'', Name ''y''], rows = []\<rparr>)], [])"
  by code_simp

text \<open>
  C6 (amended).  For a named section with a buffer that is not empty: when the reader
  raises \<open>EmptyDataError\<close>, a warning is logged, no table is stored and no error
  leaves the function; when the reader returns a table, the table is stored under the
  name of the section and nothing is logged, whatever its number of rows.  The
  reference reader raises \<open>EmptyDataError\<close> exactly when the buffer has no line
  other than blank ones.
\<close>

theorem empty_data_warns:
  assumes "section \<noteq> []" and "buf \<noteq> []"
  shows "(rd buf (header_policy section) = EmptyDataError \<longrightarrow>
            finalize_section rd (d, lg) (Some section) buf
              = Inr (d, lg @ [Warning (''Empty section '' @ section @ '' in file'')]))
       \<and> (rd buf (header_policy section) = Parsed df \<longrightarrow>
            finalize_section rd (d, lg) (Some section) buf = Inr (dict_set section df d, lg))
       \<and> ((read_csv buf (header_policy section) = EmptyDataError) = (data_lines buf = []))"
  using assms by (simp add: read_csv_empty)

theorem empty_data_warns_witness:
  "''A'' \<noteq> [] \<and> [NL, NL] \<noteq> []
   \<and> read_csv [NL, NL] (header_policy ''A'') = EmptyDataError
   \<and> finalize_section read_csv ([], []) (Some ''A'') [NL, NL]
       = Inr ([], [Warning ''Empty section A in file''])
   \<and> read_csv (''x'' @ [NL]) (header_policy ''A'') = Parsed \<lparr>columns = [Name ''x''], rows = []\<rparr>
   \<and> finalize_section read_csv ([], []) (Some ''A'') (''x'' @ [NL])
       = Inr ([(''A'', \<lparr>columns = [Name ''x''], rows = []\<rparr>)], [])"
proof -
  have a: "''A'' \<noteq> []" and b: "[NL, NL] \<noteq> []" and b': "''x'' @ [NL] \<noteq> []" by simp_all
  have e: "read_csv [NL, NL] (header_policy ''A'') = EmptyDataError" by code_simp
  have p: "read_csv (''x'' @ [NL]) (header_policy ''A'') = Parsed \<lparr>columns = [Name ''x''], rows = []\<rparr>"
    by code_simp
  from empty_data_warns[OF a b, where rd = read_csv and d = "[]" and lg = "[]"] e
  have 1: "finalize_section read_csv ([], []) (Some ''A'') [NL, NL]
       = Inr ([], [Warning ''Empty section A in file''])" by simp
  from empty_data_warns[OF a b', where rd = read_csv and d = "[]" and lg = "[]"
      and df = "\<lparr>columns = [Name ''x''], rows = []\<rparr>"] p
  have 2: "finalize_section read_csv ([], []) (Some ''A'') (''x'' @ [NL])
       = Inr ([(''A'', \<lparr>columns = [Name ''x''], rows = []\<rparr>)], [])" by simp
  from a b e p 1 2 show ?thesis by blast
qed

text \<open>
  C9.  A header line made of brackets only opens the section with the empty name; the
  content lines that follow it, up to the next header line, leave the parser as it
  is, so they are dropped; and no run of the parser returns a table under the empty
  name.
\<close>

theorem empty_name_is_idle:
  assumes "startswith_bracket (strip h)" and "list_all is_bracket (strip h)"
    and "list_all (\<lambda>l. \<not> startswith_bracket (strip l)) cs"
  shows "(feed rd s h = Inr s' \<longrightarrow> current_section s' = Some [] \<and> buffer s' = [])
       \<and> feed_all rd s (h # cs @ rest) = feed_all rd s (h # rest)
       \<and> (parse_lines rd lg ls = Inr (d, lg') \<longrightarrow> [] \<notin> set (map fst d))"
proof (intro conjI impI)
  have e: "strip_brackets (strip h) = []"
    unfolding strip_brackets_def using assms(2) by (simp add: strip_where_empty)
  show "current_section s' = Some []" "buffer s' = []" if "feed rd s h = Inr s'"
    using feed_header_section[OF that assms(1)] e by simp_all
  show "feed_all rd s (h # cs @ rest) = feed_all rd s (h # rest)"
  proof (cases "feed rd s h")
    case (Inl x)
    then show ?thesis by simp
  next
    case (Inr t)
    from feed_header_section[OF Inr assms(1)] e have "\<not> truthy (current_section t)" by simp
    from feed_all_content_idle[OF this assms(3)] Inr show ?thesis by simp
  qed
  show "[] \<notin> set (map fst d)" if "parse_lines rd lg ls = Inr (d, lg')"
    using that by (rule parse_lines_keys)
qed

theorem empty_name_is_idle_witness:
  "startswith_bracket (strip ''[]'') \<and> list_all is_bracket (strip ''[]'')
   \<and> list_all (\<lambda>l. \<not> startswith_bracket (strip l)) [''x'', ''1'']
   \<and> feed read_csv (initial []) ''[]''
       = Inr \<lparr>dfs = [], logged = [], current_section = Some [], buffer = []\<rparr>
   \<and> feed_all read_csv (initial []) (''[]'' # [''x'', ''1''] @ [''[A]'', ''y'', ''2''])
       = feed_all read_csv (initial []) (''[]'' # [''[A]'', ''y'', ''2''])
   \<and> parse_lines read_csv [] [''[]'', ''x'', ''1'', ''[A]'', ''y'', ''2'']
       = Inr ([(''A'', \<lparr>columns = [Name ''y''], rows = [[''2'']]\<rparr>)], [])
   \<and> [] \<notin> set (map fst [(''A'', \<lparr>columns = [Name ''y''], rows = [[''2'']]\<rparr>)])"
proof -
  have a: "startswith_bracket (strip ''[]'')" by code_simp
  have b: "list_all is_bracket (strip ''[]'')" by code_simp
  have c: "list_all (\<lambda>l. \<not> startswith_bracket (strip l)) [''x'', ''1'']" by code_simp
  have f: "feed read_csv (initial []) ''[]''
       = Inr \<lparr>dfs = [], logged = [], current_section = Some [], buffer = []\<rparr>" by code_simp
  have p: "parse_lines read_csv [] [''[]'', ''x'', ''1'', ''[A]'', ''y'', ''2'']
       = Inr ([(''A'', \<lparr>columns = [Name ''y''], rows = [[''2'']]\<rparr>)], [])" by code_simp
  note t = empty_name_is_idle[OF a b c, where rd = read_csv and s = "initial []"
      and s' = "\<lparr>dfs = [], logged = [], current_section = Some [], buffer = []\<rparr>"
      and rest = "[''[A]'', ''y'', ''2'']" and lg = "[]"
      and ls = "[''[]'', ''x'', ''1'', ''[A]'', ''y'', ''2'']"
      and d = "[(''A'', \<lparr>columns = [Name ''y''], rows = [[''2'']]\<rparr>)]" and lg' = "[]"]
  from a b c f p t show ?thesis by blast
qed


section \<open>Properties of the column pruner\<close>

lemma prune_eq: "prune df = drop_columns columns_to_drop df"
proof -
  have k: "(c \<notin> Name ` set (existing_columns df)) = (c \<notin> Name ` set columns_to_drop)"
    if "c \<in> set (columns df)" for c
    using that by (auto simp: existing_columns_def)
  have 1: "filter (\<lambda>c. c \<notin> Name ` set (existing_columns df)) (columns df)
         = filter (\<lambda>c. c \<notin> Name ` set columns_to_drop) (columns df)"
    by (rule filter_cong[OF refl]) (rule k)
  have 2: "filter (\<lambda>(c, v). c \<notin> Name ` set (existing_columns df)) (zip (columns df) r)
         = filter (\<lambda>(c, v). c \<notin> Name ` set columns_to_drop) (zip (columns df) r)" for r
    by (rule filter_cong[OF refl]) (auto dest!: set_zip_leftD simp: existing_columns_def)
  show ?thesis unfolding prune_def drop_columns_def by (simp add: 1 2)
qed

lemma zip_filter_fst:
  "zip (filter P cs) (map snd (filter (\<lambda>(c, v). P c) (zip cs r))) = filter (\<lambda>(c, v). P c) (zip cs r)"
proof (induction cs arbitrary: r)
  case Nil
  then show ?case by simp
next
  case (Cons c cs)
  then show ?case by (cases r) auto
qed

lemma map_of_filter_fst:
  "P k \<Longrightarrow> map_of (filter (\<lambda>(c, v). P c) xs) k = map_of xs k"
  by (induction xs) auto

lemma filter_zip_all:
  "\<forall>c \<in> set cs. P c \<Longrightarrow> length r = length cs
     \<Longrightarrow> map snd (filter (\<lambda>(c, v). P c) (zip cs r)) = r"
proof -
  assume a: "\<forall>c \<in> set cs. P c" and l: "length r = length cs"
  have "filter (\<lambda>(c, v). P c) (zip cs r) = zip cs r"
    using a by (auto simp: filter_id_conv dest: set_zip_leftD)
  then show ?thesis using l by simp
qed

text \<open>
  C7.  The columns of the pruned table are the columns of the table that are not on
  the deny-list, whether or not every listed column is present; the table with the
  columns \<open>ID\<close>, \<open>Definition\<close>, \<open>Probe_Sequence\<close>, \<open>Gene\<close> is reduced to \<open>ID\<close>,
  \<open>Gene\<close>; a table without any listed column is returned as it is.
\<close>

theorem prune_drops_deny_list:
  "columns (prune df) = filter (\<lambda>c. c \<notin> Name ` set columns_to_drop) (columns df)
   \<and> prune \<lparr>columns = [Name ''ID'', Name ''Definition'', Name ''Probe_Sequence'', Name ''Gene''],
             rows = [[''p1'', ''d1'', ''ACGT'', ''g1'']]\<rparr>
       = \<lparr>columns = [Name ''ID'', Name ''Gene''], rows = [[''p1'', ''g1'']]\<rparr>
   \<and> (rectangular df \<and> set (columns df) \<inter> Name ` set columns_to_drop = {} \<longrightarrow> prune df = df)"
proof (intro conjI impI)
  show "columns (prune df) = filter (\<lambda>c. c \<notin> Name ` set columns_to_drop) (columns df)"
    by (simp add: prune_eq drop_columns_def)
  show "prune \<lparr>columns = [Name ''ID'', Name ''Definition'', Name ''Probe_Sequence'', Name ''Gene''],
             rows = [[''p1'', ''d1'', ''ACGT'', ''g1'']]\<rparr>
       = \<lparr>columns = [Name ''ID'', Name ''Gene''], rows = [[''p1'', ''g1'']]\<rparr>"
    by code_simp
  show "prune df = df"
    if h: "rectangular df \<and> set (columns df) \<inter> Name ` set columns_to_drop = {}"
  proof -
    from h have a: "\<forall>c \<in> set (columns df). c \<notin> Name ` set columns_to_drop" by blast
    from h have r: "\<forall>r \<in> set (rows df). length r = length (columns df)"
      by (simp add: rectangular_def list_all_iff)
    have 1: "filter (\<lambda>c. c \<notin> Name ` set columns_to_drop) (columns df) = columns df"
      using a by (simp add: filter_id_conv)
    have 2: "map (\<lambda>r. map snd (filter (\<lambda>(c, v). c \<notin> Name ` set columns_to_drop)
                (zip (columns df) r))) (rows df) = rows df"
      by (intro map_idI) (simp add: r filter_zip_all[OF a])
    show ?thesis unfolding prune_eq drop_columns_def by (simp add: 1 2)
  qed
qed

theorem prune_drops_deny_list_witness:
  "rectangular \<lparr>columns = [Name ''ID'', Name ''Gene''], rows = [[''p1'', ''g1''], [''p2'', ''g2'']]\<rparr>
   \<and> set (columns \<lparr>columns = [Name ''ID'', Name ''Gene''], rows = [[''p1'', ''g1''], [''p2'', ''g2'']]\<rparr>)
        \<inter> Name ` set columns_to_drop = {}
   \<and> prune \<lparr>columns = [Name ''ID'', Name ''Gene''], rows = [[''p1'', ''g1''], [''p2'', ''g2'']]\<rparr>
       = \<lparr>columns = [Name ''ID'', Name ''Gene''], rows = [[''p1'', ''g1''], [''p2'', ''g2'']]\<rparr>"
proof -
  let ?df = "\<lparr>columns = [Name ''ID'', Name ''Gene''], rows = [[''p1'', ''g1''], [''p2'', ''g2'']]\<rparr>"
  have a: "rectangular ?df" by (simp add: rectangular_def)
  have b: "set (columns ?df) \<inter> Name ` set columns_to_drop = {}"
    by (simp add: columns_to_drop_def)
  from prune_drops_deny_list[of ?df] a b show ?thesis by blast
qed

text \<open>
  C10.  Pruning keeps the number and the order of the rows; the columns that remain
  are in the order they had; and each row keeps, column by column, the values of the
  columns that remain.
\<close>

theorem prune_frame:
  "length (rows (prune df)) = length (rows df)
   \<and> subseq (columns (prune df)) (columns df)
   \<and> (\<forall>i < length (rows df).
         zip (columns (prune df)) (rows (prune df) ! i)
           = filter (\<lambda>(c, v). c \<notin> Name ` set columns_to_drop) (zip (columns df) (rows df ! i))
       \<and> (\<forall>c \<in> set (columns (prune df)). cell (prune df) i c = cell df i c))"
proof (intro conjI allI impI ballI)
  show "length (rows (prune df)) = length (rows df)"
    by (simp add: prune_eq drop_columns_def)
  show "subseq (columns (prune df)) (columns df)"
    by (simp add: prune_eq drop_columns_def)
  fix i assume i: "i < length (rows df)"
  show z: "zip (columns (prune df)) (rows (prune df) ! i)
           = filter (\<lambda>(c, v). c \<notin> Name ` set columns_to_drop) (zip (columns df) (rows df ! i))"
    using i by (simp add: prune_eq drop_columns_def zip_filter_fst)
  fix c assume "c \<in> set (columns (prune df))"
  then have "c \<notin> Name ` set columns_to_drop" by (simp add: prune_eq drop_columns_def)
  then show "cell (prune df) i c = cell df i c"
    unfolding cell_def z by (rule map_of_filter_fst)
qed

theorem prune_frame_witness:
  "(1::nat) < length (rows \<lparr>columns = [Name ''ID'', Name ''Synonyms'', Name ''Gene''],
                            rows = [[''p1'', ''s1'', ''g1''], [''p2'', ''s2'', ''g2'']]\<rparr>)
   \<and> Name ''Gene'' \<in> set (columns (prune \<lparr>columns = [Name ''ID'', Name ''Synonyms'', Name ''Gene''],
                            rows = [[''p1'', ''s1'', ''g1''], [''p2'', ''s2'', ''g2'']]\<rparr>))
   \<and> cell (prune \<lparr>columns = [Name ''ID'', Name ''Synonyms'', Name ''Gene''],
                   rows = [[''p1'', ''s1'', ''g1''], [''p2'', ''s2'', ''g2'']]\<rparr>) 1 (Name ''Gene'')
       = Some ''g2''"
proof -
  let ?df = "\<lparr>columns = [Name ''ID'', Name ''Synonyms'', Name ''Gene''],
                            rows = [[''p1'', ''s1'', ''g1''], [''p2'', ''s2'', ''g2'']]\<rparr>"
  have a: "(1::nat) < length (rows ?df)" by simp
  have b: "Name ''Gene'' \<in> set (columns (prune ?df))" by code_simp
  have c: "cell ?df 1 (Name ''Gene'') = Some ''g2''" by (simp add: cell_def)
  from prune_frame[of ?df] a b have "cell (prune ?df) 1 (Name ''Gene'') = cell ?df 1 (Name ''Gene'')"
    by blast
  with a b c show ?thesis by simp
qed

section \<open>Files of the workspace under the operations\<close>

text \<open>
  What is at a path after an operation, in terms of what was there before: an
  operation changes the kind of the node at the paths it names and nowhere else.
\<close>

lemma kind_Nil [simp]: "kind n [] = (case n of File x \<Rightarrow> Some IsFile | Dir es \<Rightarrow> Some IsDir)"
  by (simp add: kind_def split: node.splits)

lemma kind_File_Cons [simp]: "kind (File x) (c # p) = None"
  by (simp add: kind_def)


lemma map_of_update [simp]: "map_of (AList.update k v al) = (map_of al)(k \<mapsto> v)"
  by (rule update_conv')

lemma map_of_delete [simp]: "map_of (AList.delete k al) = (map_of al)(k := None)"
  by (rule delete_conv')

















section \<open>Markers under the stages\<close>












































text \<open>
  The conditions on the stems are needed: for a compressed member \<open>_processed.gz\<close>
  Process makes the directory of the member at the path of its own marker and raises
  when it writes the marker, and for a member \<open>_trimmed.gz\<close> with a Probes table
  Trim does so at the path of its marker.  In both cases the body raises and the path
  of the marker exists.
\<close>

lemma stems_named_like_markers:
  "fst (run Process processed_stem ''GSE1''
          (run_all [Download, Extract] processed_stem ''GSE1'' cleared_ws)) = Some IsADirectoryError
   \<and> path_exists (root (snd (run Process processed_stem ''GSE1''
          (run_all [Download, Extract] processed_stem ''GSE1'' cleared_ws)))) (target Process ''GSE1'')
   \<and> fst (run Trim trimmed_stem ''GSE1''
          (run_all [Download, Extract, Process] trimmed_stem ''GSE1'' cleared_ws))
       = Some IsADirectoryError
   \<and> path_exists (root (snd (run Trim trimmed_stem ''GSE1''
          (run_all [Download, Extract, Process] trimmed_stem ''GSE1'' cleared_ws))))
        (target Trim ''GSE1'')"
  by code_simp




section \<open>Evaluation of the Process and Cleanup stages\<close>

text \<open>
  C2.  The extracted directory holds \<open>a.gz\<close>, whose section has a data line with more
  fields than its header, and the well-formed \<open>b.gz\<close>.  The \<open>ParserError\<close> of the
  reader is not caught: it leaves the stage, nothing is logged, the marker of the stage
  is not written and \<open>b.gz\<close> is not processed.
\<close>

theorem process_stops_at_parse_error:
  "fst (run Process plain ''GSE1'' \<lparr>root = ragged_ws, journal = []\<rparr>) = Some ParserError
   \<and> \<not> is_file (root (snd (run Process plain ''GSE1'' \<lparr>root = ragged_ws, journal = []\<rparr>)))
           (target Process ''GSE1'')
   \<and> lookup (root (snd (run Process plain ''GSE1'' \<lparr>root = ragged_ws, journal = []\<rparr>)))
        [''data'', ''processed'', ''GSE1'', ''b''] = None
   \<and> journal (snd (run Process plain ''GSE1'' \<lparr>root = ragged_ws, journal = []\<rparr>)) = []"
  by code_simp

text \<open>
  C8.  The directory \<open>c\<close> holds a text file and an empty directory.  Cleanup deletes
  the text file, looks at \<open>c\<close> while it still holds \<open>tables\<close>, then removes \<open>tables\<close>:
  the stage succeeds and \<open>c\<close>, emptied by the pass, remains.  Where the directory of a
  member is itself named \<open>*.txt\<close>, the first loop tries to unlink the directory and
  the stage ends with that exception, the text file below still in place.
\<close>

theorem cleanup_leaves_emptied_parent:
  "run Cleanup c ''GSE1'' \<lparr>root = nested_ws, journal = []\<rparr>
     = (None,
        \<lparr>root = Dir [(''data'',
                    Dir [(''processed'', Dir [(''GSE1'',
                            Dir [(''c'', Dir []), (''_processed'', File ''done'')])]),
                         (''cleanup'', Dir [(''GSE1'', Dir [(''_cleanup'', File ''done'')])])])],
          journal = []\<rparr>)
   \<and> is_empty_dir (root (snd (run Cleanup c ''GSE1'' \<lparr>root = nested_ws, journal = []\<rparr>)))
         [''data'', ''processed'', ''GSE1'', ''c'']
   \<and> run Cleanup c ''GSE1'' \<lparr>root = suffixed_ws, journal = []\<rparr>
       = (Some IsADirectoryError, \<lparr>root = suffixed_ws, journal = []\<rparr>)"
proof -
  have 1: "run Cleanup c ''GSE1'' \<lparr>root = nested_ws, journal = []\<rparr>
     = (None,
        \<lparr>root = Dir [(''data'',
                    Dir [(''processed'', Dir [(''GSE1'',
                            Dir [(''c'', Dir []), (''_processed'', File ''done'')])]),
                         (''cleanup'', Dir [(''GSE1'', Dir [(''_cleanup'', File ''done'')])])])],
          journal = []\<rparr>)"
    by (simp add: run_def simple_name_def run_cleanup_def cleanup_body_def nested_ws_def
        glob_under_def is_empty_dir_def unlink_def rmdir_def finish_def write_target_def
        write_file_def AList.update_def)
  have 2: "run Cleanup c ''GSE1'' \<lparr>root = suffixed_ws, journal = []\<rparr>
       = (Some IsADirectoryError, \<lparr>root = suffixed_ws, journal = []\<rparr>)"
    by (simp add: run_def simple_name_def run_cleanup_def cleanup_body_def suffixed_ws_def
        glob_under_def unlink_def)
  from 1 2 show ?thesis by (simp add: is_empty_dir_def)
qed

end
